theory Spec2Isabelle
  imports Complex_Main "HOL-Library.AList" "HOL-Library.Char_ord"
begin

section \<open>Data model\<close>

text \<open>
  The retrieval and answering services of the FAQ assistant
  (\<^verbatim>\<open>src/api/services/retrieval_service.py\<close>, \<^verbatim>\<open>variant_service.py\<close>,
  \<^verbatim>\<open>qa_service.py\<close>, \<^verbatim>\<open>src/api/models/schemas.py\<close>).

  Conventions of the embedding:
  \<^item> Python \<^verbatim>\<open>float\<close> values (similarities, the threshold, clock readings) are reals:
    finite floats, compared exactly. NaN is outside the model.
  \<^item> Python \<^verbatim>\<open>int\<close> is \<open>int\<close>; \<^verbatim>\<open>str\<close> is \<open>string\<close>, whose characters are
    read as ASCII (whitespace and lower-casing are the ASCII ones).
  \<^item> An exception is a value of type \<open>exn\<close>; code that may raise returns \<open>exn + 'a\<close>.
  \<^item> Every call that leaves the process (language model chains, the embedding API, the
    database) is answered by the \<open>world\<close> and appended to the history of calls, which
    is threaded through the code. The world's answers may depend on the history, so
    the same call may be answered differently each time.
\<close>

datatype exn =
    JSONDecodeError
  | TypeError
  | KeyError
  | ValidationError
  | ExternalError string

type_synonym vector = "real list"

text \<open>The match dictionary built by the two sub-searches (keys \<^verbatim>\<open>faq_id\<close>, \<^verbatim>\<open>question\<close>,
  \<^verbatim>\<open>answer\<close>, \<^verbatim>\<open>similarity\<close>, \<^verbatim>\<open>source\<close>, \<^verbatim>\<open>matched_text\<close>).\<close>

record match =
  faq_id :: int
  question :: string
  answer :: string
  similarity :: real
  source :: string
  matched_text :: "string option"

datatype call =
    RouterInvoke string
  | VariantChainInvoke string int real
  | EmbeddingsCreate string
  | QueryFaqs vector int
  | QueryVariants vector int
  | RagChainInvoke string string
  | GeneralChainInvoke string

type_synonym hist = "call list"

text \<open>A row of the \<^verbatim>\<open>faqs\<close> query is (id, question, answer, similarity); a row of the
  \<^verbatim>\<open>faq_variants\<close> query is (id, question, answer, variant, similarity). The
  embedding columns are nullable, so the computed similarity may be NULL (\<open>None\<close>).\<close>

type_synonym faq_row = "int \<times> string \<times> string \<times> real option"
type_synonym variant_row = "int \<times> string \<times> string \<times> string \<times> real option"

text \<open>A value returned by \<^verbatim>\<open>json.loads\<close>. An object holds its items in order, with
  distinct keys.\<close>

datatype json =
    JNull
  | JBool bool
  | JInt int
  | JFloat real
  | JStr string
  | JArr "json list"
  | JObj "(string \<times> json) list"

text \<open>The world: what the external services answer, given the calls made so far and
  the arguments. \<open>time_time\<close> is the clock (\<^verbatim>\<open>time.time()\<close>). The last two fields are
  the library functions that the code calls and the model does not reimplement:
  \<^verbatim>\<open>json.loads\<close>, and \<^verbatim>\<open>str()\<close> applied to a JSON value that is not a string.\<close>

record world =
  time_time :: "hist \<Rightarrow> real"
  llm_router_invoke :: "hist \<Rightarrow> string \<Rightarrow> exn + string"
  variant_chain_invoke :: "hist \<Rightarrow> string \<Rightarrow> int \<Rightarrow> real \<Rightarrow> exn + string"
  embeddings_create :: "hist \<Rightarrow> string \<Rightarrow> exn + vector"
  db_query_faqs :: "hist \<Rightarrow> vector \<Rightarrow> int \<Rightarrow> exn + faq_row list"
  db_query_variants :: "hist \<Rightarrow> vector \<Rightarrow> int \<Rightarrow> exn + variant_row list"
  rag_chain_invoke :: "hist \<Rightarrow> string \<Rightarrow> string \<Rightarrow> exn + string"
  general_chain_invoke :: "hist \<Rightarrow> string \<Rightarrow> exn + string"
  json_loads :: "string \<Rightarrow> exn + json"
  py_repr :: "json \<Rightarrow> string"

section \<open>Strings\<close>

text \<open>\<^verbatim>\<open>str.isspace\<close> on an ASCII character.\<close>

definition py_isspace :: "char \<Rightarrow> bool" where
  "py_isspace c = (c \<in> set [CHR 0x09, CHR 0x0A, CHR 0x0B, CHR 0x0C, CHR 0x0D,
                            CHR 0x1C, CHR 0x1D, CHR 0x1E, CHR 0x1F, CHR '' ''])"

text \<open>\<^verbatim>\<open>s.strip()\<close> and \<^verbatim>\<open>s.strip(chars)\<close>.\<close>

definition py_strip :: "string \<Rightarrow> string" where
  "py_strip s = rev (dropWhile py_isspace (rev (dropWhile py_isspace s)))"

definition py_strip_chars :: "string \<Rightarrow> string \<Rightarrow> string" where
  "py_strip_chars s chars =
     rev (dropWhile (\<lambda>c. c \<in> set chars) (rev (dropWhile (\<lambda>c. c \<in> set chars) s)))"

text \<open>\<^verbatim>\<open>re.sub(r'\s+', ' ', s)\<close>: every maximal run of whitespace becomes one space.\<close>

function re_sub_ws :: "string \<Rightarrow> string" where
  "re_sub_ws [] = []"
| "re_sub_ws (c # cs) =
     (if py_isspace c then CHR '' '' # re_sub_ws (dropWhile py_isspace cs)
      else c # re_sub_ws cs)"
  by pat_completeness auto
termination
  by (relation "measure length") (auto simp: length_dropWhile_le less_Suc_eq_le)

text \<open>\<^verbatim>\<open>s.lower()\<close> on ASCII.\<close>

definition py_lower_char :: "char \<Rightarrow> char" where
  "py_lower_char c =
     (if CHR ''A'' \<le> c \<and> c \<le> CHR ''Z'' then char_of (of_char c + (32::nat)) else c)"

definition py_lower :: "string \<Rightarrow> string" where
  "py_lower s = map py_lower_char s"

text \<open>\<^verbatim>\<open>sub in s\<close> for strings: \<^verbatim>\<open>sub\<close> occurs in \<^verbatim>\<open>s\<close> as a substring.\<close>

fun py_contains :: "string \<Rightarrow> string \<Rightarrow> bool" where
  "py_contains sub [] = (sub = [])"
| "py_contains sub (c # cs) = (take (length sub) (c # cs) = sub \<or> py_contains sub cs)"

text \<open>\<^verbatim>\<open>sep.join(parts)\<close>.\<close>

fun py_join :: "string \<Rightarrow> string list \<Rightarrow> string" where
  "py_join sep [] = []"
| "py_join sep [p] = p"
| "py_join sep (p # q # ps) = p @ sep @ py_join sep (q # ps)"

text \<open>The decimal text of a natural number (the \<^verbatim>\<open>{i}\<close> of an f-string).\<close>

fun py_str_nat :: "nat \<Rightarrow> string" where
  "py_str_nat n =
     (if n < 10 then [char_of (48 + n)]
      else py_str_nat (n div 10) @ [char_of (48 + n mod 10)])"

declare py_str_nat.simps [simp del]

section \<open>RetrievalService\<close>

text \<open>\<^verbatim>\<open>float(row[3])\<close>: raises \<^verbatim>\<open>TypeError\<close> on \<^verbatim>\<open>None\<close>.\<close>

definition py_float :: "real option \<Rightarrow> exn + real" where
  "py_float v = (case v of None \<Rightarrow> Inl TypeError | Some x \<Rightarrow> Inr x)"

text \<open>The loop \<^verbatim>\<open>for row in results: matches.append({...})\<close> of \<^verbatim>\<open>_search_faqs_table\<close>.\<close>

fun faq_rows_to_matches :: "faq_row list \<Rightarrow> match list \<Rightarrow> exn + match list" where
  "faq_rows_to_matches [] matches = Inr matches"
| "faq_rows_to_matches ((r0, r1, r2, r3) # rows) matches =
     (case py_float r3 of
        Inl e \<Rightarrow> Inl e
      | Inr s \<Rightarrow>
          faq_rows_to_matches rows
            (matches @ [\<lparr>faq_id = r0, question = r1, answer = r2, similarity = s,
                          source = ''faq'', matched_text = None\<rparr>]))"

fun variant_rows_to_matches :: "variant_row list \<Rightarrow> match list \<Rightarrow> exn + match list" where
  "variant_rows_to_matches [] matches = Inr matches"
| "variant_rows_to_matches ((r0, r1, r2, r3, r4) # rows) matches =
     (case py_float r4 of
        Inl e \<Rightarrow> Inl e
      | Inr s \<Rightarrow>
          variant_rows_to_matches rows
            (matches @ [\<lparr>faq_id = r0, question = r1, answer = r2, similarity = s,
                          source = ''variant'', matched_text = Some r3\<rparr>]))"

text \<open>The body of the \<^verbatim>\<open>try\<close> block of \<^verbatim>\<open>_search_faqs_table\<close>.\<close>

definition search_faqs_table_try :: "world \<Rightarrow> vector \<Rightarrow> int \<Rightarrow> hist \<Rightarrow> exn + match list" where
  "search_faqs_table_try w embedding top_k h =
     (case db_query_faqs w h embedding top_k of
        Inl e \<Rightarrow> Inl e
      | Inr results \<Rightarrow> faq_rows_to_matches results [])"

text \<open>\<^verbatim>\<open>_search_faqs_table\<close>: \<^verbatim>\<open>except Exception: return []\<close>.\<close>

definition search_faqs_table :: "world \<Rightarrow> vector \<Rightarrow> int \<Rightarrow> hist \<Rightarrow> match list \<times> hist" where
  "search_faqs_table w embedding top_k h =
     (case search_faqs_table_try w embedding top_k h of
        Inl e \<Rightarrow> ([], h @ [QueryFaqs embedding top_k])
      | Inr matches \<Rightarrow> (matches, h @ [QueryFaqs embedding top_k]))"

definition search_variants_table_try :: "world \<Rightarrow> vector \<Rightarrow> int \<Rightarrow> hist \<Rightarrow> exn + match list" where
  "search_variants_table_try w embedding top_k h =
     (case db_query_variants w h embedding top_k of
        Inl e \<Rightarrow> Inl e
      | Inr results \<Rightarrow> variant_rows_to_matches results [])"

definition search_variants_table :: "world \<Rightarrow> vector \<Rightarrow> int \<Rightarrow> hist \<Rightarrow> match list \<times> hist" where
  "search_variants_table w embedding top_k h =
     (case search_variants_table_try w embedding top_k h of
        Inl e \<Rightarrow> ([], h @ [QueryVariants embedding top_k])
      | Inr matches \<Rightarrow> (matches, h @ [QueryVariants embedding top_k]))"

text \<open>\<^verbatim>\<open>_deduplicate_matches\<close>. The dictionary \<^verbatim>\<open>faq_map\<close> is an association list in
  insertion order: assigning to a key that is present keeps the key's position,
  assigning to a new key appends it (\<open>AList.update\<close>). \<^verbatim>\<open>list(faq_map.values())\<close> reads
  the values in that order.\<close>

fun dedup_loop :: "match list \<Rightarrow> (int \<times> match) list \<Rightarrow> (int \<times> match) list" where
  "dedup_loop [] faq_map = faq_map"
| "dedup_loop (m # ms) faq_map =
     (case map_of faq_map (faq_id m) of
        None \<Rightarrow> dedup_loop ms (AList.update (faq_id m) m faq_map)
      | Some old \<Rightarrow>
          if similarity m > similarity old
          then dedup_loop ms (AList.update (faq_id m) m faq_map)
          else dedup_loop ms faq_map)"

definition deduplicate_matches :: "match list \<Rightarrow> match list" where
  "deduplicate_matches matches = map snd (dedup_loop matches [])"

text \<open>The loop \<^verbatim>\<open>for embedding in query_embeddings\<close> of \<^verbatim>\<open>search_similar_faqs\<close>.\<close>

fun search_loop :: "world \<Rightarrow> vector list \<Rightarrow> int \<Rightarrow> match list \<Rightarrow> hist \<Rightarrow> match list \<times> hist" where
  "search_loop w [] top_k all_matches h = (all_matches, h)"
| "search_loop w (embedding # rest) top_k all_matches h =
     (let (faq_matches, h1) = search_faqs_table w embedding top_k h;
          all1 = all_matches @ faq_matches;
          (variant_matches, h2) = search_variants_table w embedding top_k h1;
          all2 = all1 @ variant_matches
      in search_loop w rest top_k all2 h2)"

text \<open>\<^verbatim>\<open>xs[:k]\<close>: a negative \<^verbatim>\<open>k\<close> counts from the end.\<close>

definition py_slice_to :: "'a list \<Rightarrow> int \<Rightarrow> 'a list" where
  "py_slice_to xs k =
     (if 0 \<le> k then take (nat k) xs else take (nat (int (length xs) + k)) xs)"

text \<open>\<^verbatim>\<open>deduplicated.sort(key=lambda x: x['similarity'], reverse=True)\<close>: a stable sort,
  descending in the key (entries with equal keys keep their order).\<close>

definition sort_by_similarity_desc :: "match list \<Rightarrow> match list" where
  "sort_by_similarity_desc ms = sort_key (\<lambda>x. - similarity x) ms"

definition search_similar_faqs :: "world \<Rightarrow> vector list \<Rightarrow> int \<Rightarrow> hist \<Rightarrow> match list \<times> hist" where
  "search_similar_faqs w query_embeddings top_k h =
     (let (all_matches, h') = search_loop w query_embeddings top_k [] h;
          deduplicated = deduplicate_matches all_matches;
          sorted_matches = sort_by_similarity_desc deduplicated
      in (py_slice_to sorted_matches top_k, h'))"

section \<open>VariantGenerationService\<close>

text \<open>\<^verbatim>\<open>_clean_variants\<close>: the loop over \<^verbatim>\<open>variants\<close> with the set \<^verbatim>\<open>seen\<close>, the list
  \<^verbatim>\<open>cleaned\<close>, \<^verbatim>\<open>continue\<close> and \<^verbatim>\<open>break\<close>. The characters stripped by
  the second \<^verbatim>\<open>strip\<close> are the double and the single quote.\<close>

fun clean_loop :: "string list \<Rightarrow> int \<Rightarrow> string set \<Rightarrow> string list \<Rightarrow> string list" where
  "clean_loop [] expected_count seen cleaned = cleaned"
| "clean_loop (variant # rest) expected_count seen cleaned =
     (let variant1 = py_strip (re_sub_ws variant);
          variant2 = py_strip_chars variant1 [CHR 0x22, CHR 0x27]
      in if variant2 = [] \<or> py_lower variant2 \<in> seen
         then clean_loop rest expected_count seen cleaned
         else (let seen' = insert (py_lower variant2) seen;
                   cleaned' = cleaned @ [variant2]
               in if int (length cleaned') \<ge> expected_count then cleaned'
                  else clean_loop rest expected_count seen' cleaned'))"

definition clean_variants :: "string list \<Rightarrow> int \<Rightarrow> string list" where
  "clean_variants variants expected_count = clean_loop variants expected_count {} []"

text \<open>\<^verbatim>\<open>parsed["paraphrases"]\<close>: a dictionary looks the key up, any other JSON value
  raises \<^verbatim>\<open>TypeError\<close> on a string subscript.\<close>

definition py_getitem :: "json \<Rightarrow> string \<Rightarrow> exn + json" where
  "py_getitem parsed key =
     (case parsed of
        JObj items \<Rightarrow> (case map_of items key of None \<Rightarrow> Inl KeyError | Some v \<Rightarrow> Inr v)
      | _ \<Rightarrow> Inl TypeError)"

text \<open>\<^verbatim>\<open>for x in v\<close>: a list yields its elements, a string its characters, a
  dictionary its keys; \<^verbatim>\<open>None\<close>, a boolean or a number is not iterable.\<close>

definition py_iter :: "json \<Rightarrow> exn + json list" where
  "py_iter v =
     (case v of
        JArr xs \<Rightarrow> Inr xs
      | JStr s \<Rightarrow> Inr (map (\<lambda>c. JStr [c]) s)
      | JObj items \<Rightarrow> Inr (map (\<lambda>item. JStr (fst item)) items)
      | _ \<Rightarrow> Inl TypeError)"

definition py_str :: "world \<Rightarrow> json \<Rightarrow> string" where
  "py_str w x = (case x of JStr s \<Rightarrow> s | _ \<Rightarrow> py_repr w x)"

text \<open>\<^verbatim>\<open>re.search(r'\[[\s\S]*?]', response)\<close>: the match starts at the first \<^verbatim>\<open>[\<close>
  that has a \<^verbatim>\<open>]\<close> after it and ends at the first \<^verbatim>\<open>]\<close> after that start.
  \<open>upto_close\<close> is the lazy \<^verbatim>\<open>[\s\S]*?]\<close>.\<close>

fun upto_close :: "string \<Rightarrow> string option" where
  "upto_close [] = None"
| "upto_close (c # cs) =
     (if c = CHR '']'' then Some [c] else map_option (\<lambda>r. c # r) (upto_close cs))"

fun re_search_bracket :: "string \<Rightarrow> string option" where
  "re_search_bracket [] = None"
| "re_search_bracket (c # cs) =
     (if c = CHR ''[''
      then (case upto_close cs of
              Some body \<Rightarrow> Some (c # body)
            | None \<Rightarrow> re_search_bracket cs)
      else re_search_bracket cs)"

text \<open>The \<^verbatim>\<open>try\<close> block of \<^verbatim>\<open>_parse_response\<close>:
  \<^verbatim>\<open>parsed = json.loads(response); variants = [str(x) for x in parsed["paraphrases"]]\<close>.\<close>

definition parse_response_try :: "world \<Rightarrow> string \<Rightarrow> exn + string list" where
  "parse_response_try w response =
     (case json_loads w response of
        Inl e \<Rightarrow> Inl e
      | Inr parsed \<Rightarrow>
          (case py_getitem parsed ''paraphrases'' of
             Inl e \<Rightarrow> Inl e
           | Inr paraphrases \<Rightarrow>
               (case py_iter paraphrases of
                  Inl e \<Rightarrow> Inl e
                | Inr xs \<Rightarrow> Inr (map (py_str w) xs))))"

text \<open>The handler of \<^verbatim>\<open>json.JSONDecodeError\<close>: the regex salvage, whose own
  \<^verbatim>\<open>except Exception\<close> leaves \<^verbatim>\<open>variants = []\<close>.\<close>

definition parse_response_salvage :: "world \<Rightarrow> string \<Rightarrow> string list" where
  "parse_response_salvage w response =
     (case re_search_bracket response of
        None \<Rightarrow> []
      | Some group0 \<Rightarrow>
          (case json_loads w group0 of
             Inl e \<Rightarrow> []
           | Inr v \<Rightarrow>
               (case py_iter v of
                  Inl e \<Rightarrow> []
                | Inr xs \<Rightarrow> map (py_str w) xs)))"

text \<open>\<^verbatim>\<open>_parse_response\<close>. Only \<^verbatim>\<open>json.JSONDecodeError\<close> is caught; any other exception
  of the \<^verbatim>\<open>try\<close> block leaves the function.\<close>

definition parse_response :: "world \<Rightarrow> string \<Rightarrow> int \<Rightarrow> exn + string list" where
  "parse_response w response expected_count =
     (case parse_response_try w response of
        Inr variants \<Rightarrow> Inr (clean_variants variants expected_count)
      | Inl e \<Rightarrow>
          if e = JSONDecodeError
          then Inr (clean_variants (parse_response_salvage w response) expected_count)
          else Inl e)"

text \<open>\<^verbatim>\<open>generate_variants\<close>. The chain is invoked with the clamped \<^verbatim>\<open>n\<close> and
  temperature; \<^verbatim>\<open>except Exception: return []\<close> covers the call and the parsing.\<close>

definition generate_variants ::
  "world \<Rightarrow> string \<Rightarrow> int \<Rightarrow> real \<Rightarrow> hist \<Rightarrow> string list \<times> hist" where
  "generate_variants w text0 n temperature h =
     (if text0 = [] \<or> py_strip text0 = [] then ([], h)
      else (let n' = max 1 (min n 10);
                temperature' = max 0 (min temperature 1)
            in case variant_chain_invoke w h text0 n' temperature' of
                 Inl e \<Rightarrow> ([], h @ [VariantChainInvoke text0 n' temperature'])
               | Inr response \<Rightarrow>
                   (case parse_response w response n' of
                      Inl e \<Rightarrow> ([], h @ [VariantChainInvoke text0 n' temperature'])
                    | Inr variants \<Rightarrow>
                        (variants, h @ [VariantChainInvoke text0 n' temperature']))))"

section \<open>EmbeddingService and search_with_metadata\<close>

text \<open>\<^verbatim>\<open>generate_embedding\<close> logs and re-raises what the embedding API raises.\<close>

definition generate_embedding :: "world \<Rightarrow> string \<Rightarrow> hist \<Rightarrow> (exn + vector) \<times> hist" where
  "generate_embedding w text0 h =
     (case embeddings_create w h text0 of
        Inl e \<Rightarrow> (Inl e, h @ [EmbeddingsCreate text0])
      | Inr embedding \<Rightarrow> (Inr embedding, h @ [EmbeddingsCreate text0]))"

text \<open>\<^verbatim>\<open>np.array(embedding, dtype=np.float32)\<close>; the rounding to single precision is
  not modelled.\<close>

definition embedding_to_vector :: "vector \<Rightarrow> vector" where
  "embedding_to_vector embedding = embedding"

fun embed_loop :: "world \<Rightarrow> string list \<Rightarrow> vector list \<Rightarrow> hist \<Rightarrow> (exn + vector list) \<times> hist" where
  "embed_loop w [] embeddings h = (Inr embeddings, h)"
| "embed_loop w (query # rest) embeddings h =
     (case generate_embedding w query h of
        (Inl e, h') \<Rightarrow> (Inl e, h')
      | (Inr embedding, h') \<Rightarrow>
          embed_loop w rest (embeddings @ [embedding_to_vector embedding]) h')"

definition search_with_metadata ::
  "world \<Rightarrow> string \<Rightarrow> string list \<Rightarrow> int \<Rightarrow> hist \<Rightarrow> (exn + match list \<times> vector list) \<times> hist" where
  "search_with_metadata w user_query query_variants top_k h =
     (let all_queries = [user_query] @ query_variants
      in case embed_loop w all_queries [] h of
           (Inl e, h') \<Rightarrow> (Inl e, h')
         | (Inr embeddings, h') \<Rightarrow>
             (let (matches, h'') = search_similar_faqs w embeddings top_k h'
              in (Inr (matches, embeddings), h'')))"

section \<open>Response schemas\<close>

text \<open>\<^verbatim>\<open>SimilarMatch\<close> and \<^verbatim>\<open>QuestionResponse\<close> are pydantic models: constructing one
  validates the field constraints and raises \<^verbatim>\<open>ValidationError\<close> when one fails. With
  the fields typed as they are here, the constraints that can fail are
  \<^verbatim>\<open>similarity: float = Field(..., ge=0.0, le=1.0)\<close> and
  \<^verbatim>\<open>confidence: float = Field(..., ge=0.0, le=1.0)\<close>.\<close>

record similar_match =
  sm_faq_id :: int
  sm_question :: string
  sm_answer :: string
  sm_similarity :: real
  sm_source :: string
  sm_matched_text :: "string option"

record question_response =
  qr_answer :: string
  qr_source :: string
  qr_confidence :: real
  qr_matched_faq :: "similar_match option"
  qr_all_matches :: "similar_match list"
  qr_generated_variants :: "string list option"
  qr_processing_time_ms :: real

definition SimilarMatch ::
  "int \<Rightarrow> string \<Rightarrow> string \<Rightarrow> real \<Rightarrow> string \<Rightarrow> string option \<Rightarrow> exn + similar_match" where
  "SimilarMatch faq_id' question' answer' similarity' source' matched_text' =
     (if 0 \<le> similarity' \<and> similarity' \<le> 1
      then Inr \<lparr>sm_faq_id = faq_id', sm_question = question', sm_answer = answer',
                sm_similarity = similarity', sm_source = source',
                sm_matched_text = matched_text'\<rparr>
      else Inl ValidationError)"

definition QuestionResponse ::
  "string \<Rightarrow> string \<Rightarrow> real \<Rightarrow> similar_match option \<Rightarrow> similar_match list \<Rightarrow>
   string list option \<Rightarrow> real \<Rightarrow> exn + question_response" where
  "QuestionResponse answer' source' confidence matched_faq all_matches generated_variants
     processing_time_ms =
     (if 0 \<le> confidence \<and> confidence \<le> 1
      then Inr \<lparr>qr_answer = answer', qr_source = source', qr_confidence = confidence,
                qr_matched_faq = matched_faq, qr_all_matches = all_matches,
                qr_generated_variants = generated_variants,
                qr_processing_time_ms = processing_time_ms\<rparr>
      else Inl ValidationError)"

section \<open>QuestionAnsweringService\<close>

text \<open>The attributes of the service that \<^verbatim>\<open>answer_question\<close> reads. \<^verbatim>\<open>__init__\<close> sets
  \<^verbatim>\<open>confidence_threshold = float(getattr(config.app, 'confidence_threshold', 0.75))\<close>;
  \<^verbatim>\<open>AppConfig\<close> has the single field \<^verbatim>\<open>similarity_threshold\<close>, so \<^verbatim>\<open>getattr\<close>
  returns its default.\<close>

record app_config =
  similarity_threshold :: real

record qa_service =
  confidence_threshold :: real
  default_general_answer :: string

definition QuestionAnsweringService_init :: "app_config \<Rightarrow> qa_service" where
  "QuestionAnsweringService_init app =
     \<lparr>confidence_threshold = 0.75,
      default_general_answer =
        ''This is not really what I was trained for, therefore I cannot answer. Try again.''\<rparr>"

text \<open>\<^verbatim>\<open>round(x, 2)\<close>: to two decimals, a tie going to the even neighbour.\<close>

definition round_half_even :: "real \<Rightarrow> int" where
  "round_half_even x =
     (let f = \<lfloor>x\<rfloor>; d = x - of_int f
      in if d < 1 / 2 then f else if 1 / 2 < d then f + 1 else if even f then f else f + 1)"

definition py_round2 :: "real \<Rightarrow> real" where
  "py_round2 x = of_int (round_half_even (x * 100)) / 100"

text \<open>\<^verbatim>\<open>_build_context\<close>: \<^verbatim>\<open>enumerate(matches, 1)\<close>, one f-string per match, joined by
  a newline.\<close>

definition context_part :: "nat \<Rightarrow> match \<Rightarrow> string" where
  "context_part i m =
     ''FAQ '' @ py_str_nat i @ '':'' @ [CHR 0x0A] @
     ''Q: '' @ question m @ [CHR 0x0A] @
     ''A: '' @ answer m @ [CHR 0x0A]"

definition build_context :: "match list \<Rightarrow> string" where
  "build_context matches =
     py_join [CHR 0x0A] (map (\<lambda>(i, m). context_part i m) (zip [1 ..< Suc (length matches)] matches))"

definition build_similar_match :: "match \<Rightarrow> exn + similar_match" where
  "build_similar_match m =
     SimilarMatch (faq_id m) (question m) (answer m) (similarity m) (source m) (matched_text m)"

text \<open>The comprehension \<^verbatim>\<open>[self._build_similar_match(m) for m in matches]\<close>.\<close>

fun build_all_matches :: "match list \<Rightarrow> exn + similar_match list" where
  "build_all_matches [] = Inr []"
| "build_all_matches (m # ms) =
     (case build_similar_match m of
        Inl e \<Rightarrow> Inl e
      | Inr sm \<Rightarrow>
          (case build_all_matches ms of
             Inl e \<Rightarrow> Inl e
           | Inr sms \<Rightarrow> Inr (sm # sms)))"

text \<open>The \<^verbatim>\<open>try\<close> block of \<^verbatim>\<open>_generate_llm_answer\<close>.\<close>

definition generate_llm_answer_try ::
  "world \<Rightarrow> string \<Rightarrow> match list \<Rightarrow> hist \<Rightarrow> (exn + string) \<times> hist" where
  "generate_llm_answer_try w user_question context_matches h =
     (let context_faqs = take 3 (filter (\<lambda>m. similarity m \<ge> 0.5) context_matches)
      in if context_faqs \<noteq> []
         then (let context_text = build_context context_faqs
               in case rag_chain_invoke w h context_text user_question of
                    Inl e \<Rightarrow> (Inl e, h @ [RagChainInvoke context_text user_question])
                  | Inr answer' \<Rightarrow>
                      (Inr (py_strip answer'), h @ [RagChainInvoke context_text user_question]))
         else (case general_chain_invoke w h user_question of
                 Inl e \<Rightarrow> (Inl e, h @ [GeneralChainInvoke user_question])
               | Inr answer' \<Rightarrow>
                   (Inr (py_strip answer'), h @ [GeneralChainInvoke user_question])))"

definition llm_fallback_answer :: string where
  "llm_fallback_answer =
     ''I apologize, but I'm unable to generate an answer at this time. Please try rephrasing your question or contact support.''"

text \<open>\<^verbatim>\<open>_generate_llm_answer\<close>: \<^verbatim>\<open>except Exception\<close> returns the fallback text.\<close>

definition generate_llm_answer ::
  "world \<Rightarrow> string \<Rightarrow> match list \<Rightarrow> hist \<Rightarrow> string \<times> hist" where
  "generate_llm_answer w user_question context_matches h =
     (case generate_llm_answer_try w user_question context_matches h of
        (Inl e, h') \<Rightarrow> (llm_fallback_answer, h')
      | (Inr answer', h') \<Rightarrow> (answer', h'))"

text \<open>The \<^verbatim>\<open>try\<close> block of \<^verbatim>\<open>answer_question\<close>. \<open>start_time\<close> is the clock reading taken
  before the block. \<^verbatim>\<open>matches, embeddings = ...search_with_metadata(..., top_k=5)\<close>.\<close>

definition answer_question_try ::
  "world \<Rightarrow> qa_service \<Rightarrow> string \<Rightarrow> bool \<Rightarrow> int \<Rightarrow> real \<Rightarrow> hist \<Rightarrow>
   (exn + question_response) \<times> hist" where
  "answer_question_try w self user_question generate_variants_flag num_variants start_time h =
     (case llm_router_invoke w h user_question of
        Inl e \<Rightarrow> (Inl e, h @ [RouterInvoke user_question])
      | Inr question_category \<Rightarrow>
          (let h1 = h @ [RouterInvoke user_question]
           in if py_contains ''general'' (py_lower question_category)
              then (let processing_time = (time_time w h1 - start_time) * 1000
                    in (QuestionResponse (default_general_answer self) ''llm'' 1 None [] None
                          (py_round2 processing_time), h1))
              else (let (variants, h2) =
                          (if generate_variants_flag
                           then generate_variants w user_question num_variants 0.7 h1
                           else ([], h1))
                    in case search_with_metadata w user_question variants 5 h2 of
                         (Inl e, h3) \<Rightarrow> (Inl e, h3)
                       | (Inr (matches, embeddings), h3) \<Rightarrow>
                           (let best_match = (case matches of [] \<Rightarrow> None | m # _ \<Rightarrow> Some m);
                                confidence =
                                  (case best_match of None \<Rightarrow> 0 | Some m \<Rightarrow> similarity m);
                                (answer', source', h4) =
                                  (if confidence \<ge> confidence_threshold self \<and> best_match \<noteq> None
                                   then (answer (the best_match), ''database'', h3)
                                   else (let (a, h') =
                                               generate_llm_answer w user_question matches h3
                                         in (a, ''llm'', h')));
                                processing_time = (time_time w h4 - start_time) * 1000
                            in case (case best_match of
                                       None \<Rightarrow> Inr None
                                     | Some m \<Rightarrow> map_sum id Some (build_similar_match m)) of
                                 Inl e \<Rightarrow> (Inl e, h4)
                               | Inr matched_faq \<Rightarrow>
                                   (case build_all_matches matches of
                                      Inl e \<Rightarrow> (Inl e, h4)
                                    | Inr all_matches \<Rightarrow>
                                        (QuestionResponse answer' source' confidence matched_faq
                                           all_matches
                                           (if generate_variants_flag then Some variants else None)
                                           (py_round2 processing_time), h4))))))"

definition error_answer :: string where
  "error_answer =
     ''I apologize, but I encountered an error processing your question. Please try again.''"

text \<open>\<^verbatim>\<open>answer_question\<close>: the clock is read, the \<^verbatim>\<open>try\<close> block runs, and
  \<^verbatim>\<open>except Exception\<close> builds the error response.\<close>

definition answer_question ::
  "world \<Rightarrow> qa_service \<Rightarrow> string \<Rightarrow> bool \<Rightarrow> int \<Rightarrow> hist \<Rightarrow> (exn + question_response) \<times> hist" where
  "answer_question w self user_question generate_variants_flag num_variants h =
     (let start_time = time_time w h
      in case answer_question_try w self user_question generate_variants_flag num_variants
                start_time h of
           (Inr response, h') \<Rightarrow> (Inr response, h')
         | (Inl e, h') \<Rightarrow>
             (let processing_time = (time_time w h' - start_time) * 1000
              in (QuestionResponse error_answer ''error'' 0 None [] None
                    (py_round2 processing_time), h')))"

section \<open>Auxiliary definitions: invariants and example inputs\<close>

definition dedup_inv :: "match list \<Rightarrow> (int \<times> match) list \<Rightarrow> bool" where
  "dedup_inv seen faq_map =
     (dom (map_of faq_map) = faq_id ` set seen \<and>
      (\<forall>k v. map_of faq_map k = Some v \<longrightarrow>
         faq_id v = k \<and> v \<in> set seen \<and>
         (\<forall>m \<in> set seen. faq_id m = k \<longrightarrow> similarity m \<le> similarity v)))"

definition example_match :: "int \<Rightarrow> real \<Rightarrow> match" where
  "example_match i s =
     \<lparr>faq_id = i, question = ''q'', answer = ''a'', similarity = s,
      source = ''faq'', matched_text = None\<rparr>"

text \<open>An example world. The clock advances by one second with every external call; the
  database answers at most \<open>top_k\<close> rows and rejects a negative limit, as PostgreSQL
  does; the language model answers with fixed texts.\<close>

definition example_faq_rows :: "faq_row list" where
  "example_faq_rows =
     [(1, ''How do I reset my password?'', ''Go to Settings > Security.'', Some (9/10)),
      (2, ''How do I log out?'', ''Use the menu.'', Some (6/10))]"

definition example_variant_rows :: "variant_row list" where
  "example_variant_rows =
     [(2, ''How do I log out?'', ''Use the menu.'', ''How can I sign out?'', Some (7/10)),
      (1, ''How do I reset my password?'', ''Go to Settings > Security.'',
       ''How can I change my password?'', Some (5/10))]"

definition example_json_loads :: "string \<Rightarrow> exn + json" where
  \<open>example_json_loads s =
     (if s = ''{"paraphrases": ["How can I change my password?"]}''
      then Inr (JObj [(''paraphrases'', JArr [JStr ''How can I change my password?''])])
      else if s = ''["How can I change my password?", "How to reset a password?"]''
      then Inr (JArr [JStr ''How can I change my password?'', JStr ''How to reset a password?''])
      else if s = ''{"paraphrases": ["'How do I reset? '", "How do I reset?"]}''
      then Inr (JObj [(''paraphrases'', JArr [JStr ([CHR 0x27] @ ''How do I reset? '' @ [CHR 0x27]),
                                            JStr ''How do I reset?''])])
      else Inl JSONDecodeError)\<close>

definition example_world :: world where
  \<open>example_world =
     \<lparr>time_time = (\<lambda>h. of_nat (length h)),
      llm_router_invoke = (\<lambda>h q. Inr ''IT''),
      variant_chain_invoke =
        (\<lambda>h t n temp. Inr ''{"paraphrases": ["How can I change my password?"]}''),
      embeddings_create = (\<lambda>h t. Inr [1, 0]),
      db_query_faqs =
        (\<lambda>h v k. if k < 0 then Inl (ExternalError ''LIMIT must not be negative'')
                 else Inr (take (nat k) example_faq_rows)),
      db_query_variants =
        (\<lambda>h v k. if k < 0 then Inl (ExternalError ''LIMIT must not be negative'')
                 else Inr (take (nat k) example_variant_rows)),
      rag_chain_invoke = (\<lambda>h c q. Inr ''Open Settings, then Security.''),
      general_chain_invoke = (\<lambda>h q. Inr ''I do not know.''),
      json_loads = example_json_loads,
      py_repr = (\<lambda>j. ''?'')\<rparr>\<close>

text \<open>The example world with the \<^verbatim>\<open>faqs\<close> table unreachable.\<close>

definition faqs_down_world :: world where
  "faqs_down_world =
     example_world\<lparr>db_query_faqs := (\<lambda>h v k. Inl (ExternalError ''connection refused''))\<rparr>"

text \<open>The steps of \<^verbatim>\<open>answer_question\<close> between a classification that is not General and
  the decision: optional variant generation, then \<^verbatim>\<open>search_with_metadata\<close> with
  \<^verbatim>\<open>top_k=5\<close>, run on the history that holds the classifier call.\<close>

definition retrieval_step ::
  "world \<Rightarrow> string \<Rightarrow> bool \<Rightarrow> int \<Rightarrow> hist \<Rightarrow> (exn + match list \<times> vector list) \<times> hist" where
  "retrieval_step w user_question generate_variants_flag num_variants h =
     (let h1 = h @ [RouterInvoke user_question];
          (variants, h2) =
            (if generate_variants_flag
             then generate_variants w user_question num_variants 0.7 h1
             else ([], h1))
      in search_with_metadata w user_question variants 5 h2)"

text \<open>The error response of the top-level handler, with its measured time.\<close>

definition error_response :: "real \<Rightarrow> question_response" where
  "error_response ms =
     \<lparr>qr_answer = ''I apologize, but I encountered an error processing your question. Please try again.'',
      qr_source = ''error'', qr_confidence = 0, qr_matched_faq = None, qr_all_matches = [],
      qr_generated_variants = None, qr_processing_time_ms = ms\<rparr>"

text \<open>The example world with the classifier answering General, and with the classifier
  timing out.\<close>

definition general_world :: world where
  "general_world = example_world\<lparr>llm_router_invoke := (\<lambda>h q. Inr ''General'')\<rparr>"

definition router_down_world :: world where
  "router_down_world =
     example_world\<lparr>llm_router_invoke := (\<lambda>h q. Inl (ExternalError ''timeout''))\<rparr>"

text \<open>The \<^verbatim>\<open>SimilarMatch\<close> that \<^verbatim>\<open>_build_similar_match\<close> builds from a match when
  validation passes.\<close>

definition to_similar_match :: "match \<Rightarrow> similar_match" where
  "to_similar_match m =
     \<lparr>sm_faq_id = faq_id m, sm_question = question m, sm_answer = answer m,
      sm_similarity = similarity m, sm_source = source m, sm_matched_text = matched_text m\<rparr>"


definition negative_world :: world where
  "negative_world =
     example_world
       \<lparr>db_query_faqs :=
          (\<lambda>h v k. Inr [(3, ''How do I print a page?'', ''Use the print dialog.'', Some (- 1/10))]),
        db_query_variants := (\<lambda>h v k. Inr [])\<rparr>"

definition negative_llm_down_world :: world where
  "negative_llm_down_world =
     negative_world
       \<lparr>rag_chain_invoke := (\<lambda>h c q. Inl (ExternalError ''timeout'')),
        general_chain_invoke := (\<lambda>h q. Inl (ExternalError ''timeout''))\<rparr>"

definition boundary_world :: "real \<Rightarrow> world" where
  "boundary_world s =
     example_world
       \<lparr>db_query_faqs :=
          (\<lambda>h v k. Inr [(1, ''How do I reset my password?'', ''Go to Settings > Security.'', Some s)]),
        db_query_variants := (\<lambda>h v k. Inr [])\<rparr>"

definition llm_down_world :: world where
  "llm_down_world =
     (boundary_world (6/10))
       \<lparr>rag_chain_invoke := (\<lambda>h c q. Inl (ExternalError ''timeout'')),
        general_chain_invoke := (\<lambda>h q. Inl (ExternalError ''timeout''))\<rparr>"

text \<open>The cleaning that \<^verbatim>\<open>_clean_variants\<close> applies to one variant: whitespace
  collapsing, trimming, quote stripping.\<close>

definition normalize_variant :: "string \<Rightarrow> string" where
  "normalize_variant v = py_strip_chars (py_strip (re_sub_ws v)) [CHR 0x22, CHR 0x27]"

text \<open>The example world with the variant chain answering a JSON array that is not
  wrapped in an object, and with the chain answering an object whose first paraphrase
  is wrapped in single quotes with a space before the closing quote.\<close>

definition array_world :: world where
  \<open>array_world =
     example_world
       \<lparr>variant_chain_invoke :=
          (\<lambda>h t n temp. Inr ''["How can I change my password?", "How to reset a password?"]'')\<rparr>\<close>

definition quoted_world :: world where
  \<open>quoted_world =
     example_world
       \<lparr>variant_chain_invoke :=
          (\<lambda>h t n temp. Inr ''{"paraphrases": ["'How do I reset? '", "How do I reset?"]}'')\<rparr>\<close>

section \<open>Deduplication\<close>

lemma dedup_loop_distinct:
  "distinct (map fst faq_map) \<Longrightarrow> distinct (map fst (dedup_loop ms faq_map))"
  by (induction ms arbitrary: faq_map) (auto simp: distinct_update split: option.splits)

lemma dedup_inv_new:
  assumes "dedup_inv seen faq_map" "map_of faq_map (faq_id m) = None"
  shows "dedup_inv (seen @ [m]) (AList.update (faq_id m) m faq_map)"
proof -
  from assms have fresh: "\<forall>m' \<in> set seen. faq_id m' \<noteq> faq_id m"
    unfolding dedup_inv_def by (metis domIff image_eqI)
  with assms(1) show ?thesis
    unfolding dedup_inv_def by (auto simp: update_conv')
qed

lemma dedup_inv_better:
  assumes "dedup_inv seen faq_map" "map_of faq_map (faq_id m) = Some old"
    "similarity old < similarity m"
  shows "dedup_inv (seen @ [m]) (AList.update (faq_id m) m faq_map)"
proof -
  from assms have le: "\<forall>m' \<in> set seen. faq_id m' = faq_id m \<longrightarrow> similarity m' \<le> similarity old"
    unfolding dedup_inv_def by blast
  from assms have "faq_id m \<in> faq_id ` set seen"
    unfolding dedup_inv_def by (metis domI)
  with assms(1,3) le show ?thesis
    unfolding dedup_inv_def by (auto simp: update_conv' insert_absorb)
qed

lemma dedup_inv_keep:
  assumes "dedup_inv seen faq_map" "map_of faq_map (faq_id m) = Some old"
    "\<not> similarity old < similarity m"
  shows "dedup_inv (seen @ [m]) faq_map"
proof -
  from assms have "faq_id m \<in> faq_id ` set seen"
    unfolding dedup_inv_def by (metis domI)
  with assms show ?thesis
    unfolding dedup_inv_def by (auto simp: insert_absorb)
qed

lemma dedup_loop_inv:
  "dedup_inv seen faq_map \<Longrightarrow> dedup_inv (seen @ ms) (dedup_loop ms faq_map)"
proof (induction ms arbitrary: faq_map seen)
  case Nil then show ?case by simp
next
  case (Cons m ms)
  have app: "seen @ m # ms = (seen @ [m]) @ ms" by simp
  show ?case
  proof (cases "map_of faq_map (faq_id m)")
    case None
    from Cons.IH[OF dedup_inv_new[OF Cons.prems None]] None show ?thesis
      unfolding app by simp
  next
    case (Some old)
    show ?thesis
    proof (cases "similarity old < similarity m")
      case True
      from Cons.IH[OF dedup_inv_better[OF Cons.prems Some True]] Some True show ?thesis
        unfolding app by simp
    next
      case False
      from Cons.IH[OF dedup_inv_keep[OF Cons.prems Some False]] Some False show ?thesis
        unfolding app by simp
    qed
  qed
qed

lemma dedup_inv_empty: "dedup_inv [] []"
  by (simp add: dedup_inv_def)

lemma dedup_final_inv: "dedup_inv ms (dedup_loop ms [])"
  using dedup_loop_inv[OF dedup_inv_empty, of ms] by simp

lemma dedup_final_distinct: "distinct (map fst (dedup_loop ms []))"
  by (rule dedup_loop_distinct) simp

lemma dedup_entry:
  assumes "(k, v) \<in> set (dedup_loop ms [])"
  shows "faq_id v = k \<and> v \<in> set ms \<and> (\<forall>m \<in> set ms. faq_id m = k \<longrightarrow> similarity m \<le> similarity v)"
proof -
  from assms dedup_final_distinct have "map_of (dedup_loop ms []) k = Some v" by simp
  with dedup_final_inv[of ms] show ?thesis unfolding dedup_inv_def by blast
qed

lemma dedup_faq_ids: "map faq_id (deduplicate_matches ms) = map fst (dedup_loop ms [])"
  unfolding deduplicate_matches_def using dedup_entry[of _ _ ms] by (auto simp: )

lemma deduplicate_distinct: "distinct (map faq_id (deduplicate_matches ms))"
  by (simp add: dedup_faq_ids dedup_final_distinct)

lemma deduplicate_ids: "set (map faq_id (deduplicate_matches ms)) = faq_id ` set ms"
  using dedup_final_inv[of ms] by (simp add: dedup_faq_ids dedup_inv_def dom_map_of_conv_image_fst)

lemma deduplicate_member:
  assumes "r \<in> set (deduplicate_matches ms)"
  shows "r \<in> set ms \<and> (\<forall>m \<in> set ms. faq_id m = faq_id r \<longrightarrow> similarity m \<le> similarity r)"
  using assms dedup_entry[of _ r ms] unfolding deduplicate_matches_def by force

text \<open>Claim C1. For every list of match candidates, the result of
  \<^verbatim>\<open>_deduplicate_matches\<close> has exactly one candidate for each \<^verbatim>\<open>faq_id\<close> of the input
  (the ids of the result are pairwise distinct and are the ids of the input), every
  retained candidate is one of the input, and its similarity is the maximum of the
  similarities of the input candidates with that \<^verbatim>\<open>faq_id\<close>.\<close>

theorem deduplicate_matches_correct:
  "distinct (map faq_id (deduplicate_matches matches)) \<and>
   set (map faq_id (deduplicate_matches matches)) = set (map faq_id matches) \<and>
   (\<forall>r \<in> set (deduplicate_matches matches).
      r \<in> set matches \<and>
      similarity r = Max {similarity m | m. m \<in> set matches \<and> faq_id m = faq_id r})"
proof (intro conjI ballI)
  show "distinct (map faq_id (deduplicate_matches matches))" by (rule deduplicate_distinct)
  show "set (map faq_id (deduplicate_matches matches)) = set (map faq_id matches)"
    using deduplicate_ids[of matches] by simp
next
  fix r assume r: "r \<in> set (deduplicate_matches matches)"
  from deduplicate_member[OF r] show "r \<in> set matches" by simp
  let ?S = "{similarity m | m. m \<in> set matches \<and> faq_id m = faq_id r}"
  have fin: "finite ?S" by simp
  have "Max ?S = similarity r"
  proof (rule Max_eqI[OF fin])
    fix y assume "y \<in> ?S"
    with deduplicate_member[OF r] show "y \<le> similarity r" by auto
  next
    from deduplicate_member[OF r] show "similarity r \<in> ?S" by auto
  qed
  then show "similarity r = Max ?S" by simp
qed

theorem deduplicate_matches_correct_witness:
  "example_match 1 (8/10) \<in>
     set (deduplicate_matches
            [example_match 1 (6/10), example_match 2 (9/10), example_match 1 (8/10)]) \<and>
   similarity (example_match 1 (8/10)) =
     Max {similarity m | m.
            m \<in> set [example_match 1 (6/10), example_match 2 (9/10), example_match 1 (8/10)] \<and>
            faq_id m = faq_id (example_match 1 (8/10))}"
proof -
  have mem: "example_match 1 (8/10) \<in>
     set (deduplicate_matches
            [example_match 1 (6/10), example_match 2 (9/10), example_match 1 (8/10)])"
    by (simp add: deduplicate_matches_def example_match_def)
  from deduplicate_matches_correct
         [of "[example_match 1 (6/10), example_match 2 (9/10), example_match 1 (8/10)]"] mem
  show ?thesis by blast
qed

section \<open>Ranking and the top-k bound\<close>

lemma sorted_desc: "sorted_wrt (\<lambda>a b. similarity a \<ge> similarity b) (sort_by_similarity_desc ms)"
proof -
  have "sorted (map (\<lambda>x. - similarity x) (sort_key (\<lambda>x. - similarity x) ms))"
    by (rule sorted_sort_key)
  then show ?thesis
    unfolding sort_by_similarity_desc_def by (simp add: sorted_map)
qed

lemma length_sort_desc: "length (sort_by_similarity_desc ms) = length ms"
  by (simp add: sort_by_similarity_desc_def)

lemma length_slice_le: "length (py_slice_to xs k) \<le> length xs"
  unfolding py_slice_to_def by auto

lemma length_slice_nonneg: "0 \<le> k \<Longrightarrow> int (length (py_slice_to xs k)) \<le> k"
  unfolding py_slice_to_def by auto

lemma sorted_slice:
  "sorted_wrt P xs \<Longrightarrow> sorted_wrt P (py_slice_to xs k)"
  unfolding py_slice_to_def by (auto simp: sorted_wrt_take)

lemma length_dedup: "length (deduplicate_matches ms) = card (faq_id ` set ms)"
proof -
  have "length (deduplicate_matches ms) = length (map faq_id (deduplicate_matches ms))" by simp
  also have "\<dots> = card (set (map faq_id (deduplicate_matches ms)))"
    using deduplicate_distinct[of ms] by (simp only: distinct_card)
  also have "\<dots> = card (faq_id ` set ms)" using deduplicate_ids[of ms] by simp
  finally show ?thesis .
qed

text \<open>Claim C4, as amended. For every world, list of query embeddings and \<open>top_k\<close>, the
  list returned by \<^verbatim>\<open>search_similar_faqs\<close> is sorted non-increasingly by similarity and
  is no longer than the number of distinct \<^verbatim>\<open>faq_id\<close>s among the candidates accumulated
  from the sub-searches; when \<open>top_k\<close> is not negative, it is no longer than \<open>top_k\<close>.\<close>

theorem search_similar_faqs_ranked_bounded:
  "sorted_wrt (\<lambda>a b. similarity a \<ge> similarity b)
     (fst (search_similar_faqs w query_embeddings top_k h)) \<and>
   length (fst (search_similar_faqs w query_embeddings top_k h)) \<le>
     card (faq_id ` set (fst (search_loop w query_embeddings top_k [] h))) \<and>
   (0 \<le> top_k \<longrightarrow>
      int (length (fst (search_similar_faqs w query_embeddings top_k h))) \<le> top_k)"
proof -
  obtain all_matches h' where sl: "search_loop w query_embeddings top_k [] h = (all_matches, h')"
    by (cases "search_loop w query_embeddings top_k [] h")
  have res: "fst (search_similar_faqs w query_embeddings top_k h) =
      py_slice_to (sort_by_similarity_desc (deduplicate_matches all_matches)) top_k"
    by (simp add: search_similar_faqs_def sl)
  have "length (py_slice_to (sort_by_similarity_desc (deduplicate_matches all_matches)) top_k)
      \<le> card (faq_id ` set all_matches)"
    using length_slice_le[of "sort_by_similarity_desc (deduplicate_matches all_matches)" top_k]
    by (simp add: length_sort_desc length_dedup)
  then show ?thesis
    unfolding res using sl by (simp add: sorted_slice sorted_desc length_slice_nonneg)
qed

theorem search_similar_faqs_ranked_bounded_witness:
  "(0::int) \<le> 2 \<and> int (length (fst (search_similar_faqs example_world [[1, 0]] 2 []))) \<le> 2"
  using search_similar_faqs_ranked_bounded
          [where w = example_world and query_embeddings = "[[1, 0]]" and top_k = 2 and h = "[]"]
  by simp

text \<open>Claim C4 as stated, for every \<open>top_k\<close>, fails at \<open>top_k = -1\<close>: the database
  rejects the negative limit, both sub-searches contribute nothing, the result is the
  empty list, and its length 0 is not at most \<open>-1\<close>.\<close>

theorem search_similar_faqs_negative_top_k:
  "fst (search_similar_faqs example_world [[1, 0]] (- 1) []) = [] \<and>
   \<not> int (length (fst (search_similar_faqs example_world [[1, 0]] (- 1) []))) \<le> - 1"
  by (simp add: search_similar_faqs_def search_faqs_table_def search_faqs_table_try_def
     search_variants_table_def search_variants_table_try_def example_world_def
     deduplicate_matches_def sort_by_similarity_desc_def py_slice_to_def)

section \<open>A failing sub-search\<close>

text \<open>Claim C7. When the sub-search against the \<^verbatim>\<open>faqs\<close> table raises (the query fails,
  or a row cannot be converted), \<^verbatim>\<open>_search_faqs_table\<close> returns the empty list, the loop
  of \<^verbatim>\<open>search_similar_faqs\<close> goes on with the candidates of the variants sub-search,
  and for a single embedding the result is the ranked, deduplicated, truncated list of
  those candidates; likewise when the sub-search against \<^verbatim>\<open>faq_variants\<close> raises. A
  failing database query is such a failure. \<^verbatim>\<open>search_similar_faqs\<close> itself has no
  raising step outside the two sub-searches, so it always returns a list.\<close>

theorem sub_search_failure_is_empty:
  "(search_faqs_table_try w embedding top_k h = Inl e \<longrightarrow>
      search_faqs_table w embedding top_k h = ([], h @ [QueryFaqs embedding top_k]) \<and>
      search_loop w (embedding # rest) top_k all_matches h =
        search_loop w rest top_k
          (all_matches @ fst (search_variants_table w embedding top_k (h @ [QueryFaqs embedding top_k])))
          (h @ [QueryFaqs embedding top_k, QueryVariants embedding top_k]) \<and>
      fst (search_similar_faqs w [embedding] top_k h) =
        py_slice_to (sort_by_similarity_desc (deduplicate_matches
          (fst (search_variants_table w embedding top_k (h @ [QueryFaqs embedding top_k]))))) top_k) \<and>
   (search_variants_table_try w embedding top_k h1 = Inl e \<longrightarrow>
      search_variants_table w embedding top_k h1 = ([], h1 @ [QueryVariants embedding top_k])) \<and>
   (search_variants_table_try w embedding top_k (h @ [QueryFaqs embedding top_k]) = Inl e \<longrightarrow>
      search_loop w (embedding # rest) top_k all_matches h =
        search_loop w rest top_k
          (all_matches @ fst (search_faqs_table w embedding top_k h))
          (h @ [QueryFaqs embedding top_k, QueryVariants embedding top_k]) \<and>
      fst (search_similar_faqs w [embedding] top_k h) =
        py_slice_to (sort_by_similarity_desc (deduplicate_matches
          (fst (search_faqs_table w embedding top_k h)))) top_k) \<and>
   (db_query_faqs w h embedding top_k = Inl e \<longrightarrow>
      search_faqs_table_try w embedding top_k h = Inl e) \<and>
   (db_query_variants w h1 embedding top_k = Inl e \<longrightarrow>
      search_variants_table_try w embedding top_k h1 = Inl e)"
  by (auto simp: search_faqs_table_def search_variants_table_def search_similar_faqs_def
      search_faqs_table_try_def search_variants_table_try_def
      split: sum.splits prod.splits)

theorem sub_search_failure_is_empty_witness:
  "search_faqs_table_try faqs_down_world [1, 0] 5 [] = Inl (ExternalError ''connection refused'') \<and>
   map (\<lambda>m. (faq_id m, similarity m, source m))
     (fst (search_similar_faqs faqs_down_world [[1, 0]] 5 [])) =
     [(2, 7/10, ''variant''), (1, 5/10, ''variant'')]"
proof -
  have raised: "search_faqs_table_try faqs_down_world [1, 0] 5 [] =
      Inl (ExternalError ''connection refused'')"
    by (simp add: search_faqs_table_try_def faqs_down_world_def)
  have variants: "fst (search_variants_table faqs_down_world [1, 0] 5 [QueryFaqs [1, 0] 5]) =
      [\<lparr>faq_id = 2, question = ''How do I log out?'', answer = ''Use the menu.'',
        similarity = 7/10, source = ''variant'', matched_text = Some ''How can I sign out?''\<rparr>,
       \<lparr>faq_id = 1, question = ''How do I reset my password?'',
        answer = ''Go to Settings > Security.'', similarity = 5/10, source = ''variant'',
        matched_text = Some ''How can I change my password?''\<rparr>]"
    by (simp add: search_variants_table_def search_variants_table_try_def faqs_down_world_def
        example_world_def example_variant_rows_def py_float_def)
  from sub_search_failure_is_empty
         [where w = faqs_down_world and embedding = "[1, 0]" and top_k = 5 and h = "[]"
            and e = "ExternalError ''connection refused''"] raised
  have "fst (search_similar_faqs faqs_down_world [[1, 0]] 5 []) =
        py_slice_to (sort_by_similarity_desc (deduplicate_matches
          (fst (search_variants_table faqs_down_world [1, 0] 5 ([] @ [QueryFaqs [1, 0] 5]))))) 5"
    by blast
  with raised variants show ?thesis
    by (simp add: deduplicate_matches_def sort_by_similarity_desc_def py_slice_to_def)
qed

section \<open>The answering workflow\<close>

subsection \<open>The branches of the workflow\<close>

lemma py_round2_int: "py_round2 (of_int k) = of_int k"
  by (simp add: py_round2_def round_half_even_def Let_def)

lemma py_round2_1000: "py_round2 1000 = 1000"
  using py_round2_int[of 1000] by simp

lemma error_handler_response:
  "QuestionResponse error_answer ''error'' 0 None [] None ms = Inr (error_response ms)"
  by (simp add: QuestionResponse_def error_response_def error_answer_def)

lemma answer_question_cases:
  "answer_question w self q gvf n h =
     (case answer_question_try w self q gvf n (time_time w h) h of
        (Inr response, h') \<Rightarrow> (Inr response, h')
      | (Inl e, h') \<Rightarrow>
          (Inr (error_response (py_round2 ((time_time w h' - time_time w h) * 1000))), h'))"
  by (simp add: answer_question_def Let_def error_handler_response split: prod.splits sum.splits)


lemma variants_step_obtain:
  obtains variants h2 where
    "(if gvf then generate_variants w q n 0.7 (h @ [RouterInvoke q])
      else ([], h @ [RouterInvoke q])) = (variants, h2)"
  by (cases "(if gvf then generate_variants w q n 0.7 (h @ [RouterInvoke q])
      else ([], h @ [RouterInvoke q]))") auto





lemma build_similar_match_ok:
  "0 \<le> similarity m \<and> similarity m \<le> 1 \<Longrightarrow> build_similar_match m = Inr (to_similar_match m)"
  by (simp add: build_similar_match_def SimilarMatch_def to_similar_match_def)

lemma build_all_matches_ok:
  "\<forall>m \<in> set matches. 0 \<le> similarity m \<and> similarity m \<le> 1 \<Longrightarrow>
   build_all_matches matches = Inr (map to_similar_match matches)"
  by (induction matches) (simp_all add: build_similar_match_ok)

lemma retrieval_step_obtain:
  assumes "fst (retrieval_step w q gvf n h) = Inr (matches, embeddings)"
  obtains variants h2 h3 where
    "(if gvf then generate_variants w q n 0.7 (h @ [RouterInvoke q])
      else ([], h @ [RouterInvoke q])) = (variants, h2)"
    "search_with_metadata w q variants 5 h2 = (Inr (matches, embeddings), h3)"
    "retrieval_step w q gvf n h = (Inr (matches, embeddings), h3)"
proof -
  obtain variants h2 where v:
    "(if gvf then generate_variants w q n 0.7 (h @ [RouterInvoke q])
      else ([], h @ [RouterInvoke q])) = (variants, h2)"
    by (rule variants_step_obtain)
  obtain h3 where s: "search_with_metadata w q variants 5 h2 = (Inr (matches, embeddings), h3)"
    using assms by (cases "search_with_metadata w q variants 5 h2")
      (simp add: retrieval_step_def Let_def v)
  have "retrieval_step w q gvf n h = (Inr (matches, embeddings), h3)"
    by (simp add: retrieval_step_def Let_def v s)
  with v s that show thesis by blast
qed

lemma try_empty:
  assumes "llm_router_invoke w h q = Inr cat" "\<not> py_contains ''general'' (py_lower cat)"
    and v: "(if gvf then generate_variants w q n 0.7 (h @ [RouterInvoke q])
             else ([], h @ [RouterInvoke q])) = (variants, h2)"
    and s: "search_with_metadata w q variants 5 h2 = (Inr ([], embeddings), h3)"
    and g: "generate_llm_answer w q [] h3 = (a, h4)"
  shows "answer_question_try w self q gvf n st h =
     (Inr \<lparr>qr_answer = a, qr_source = ''llm'', qr_confidence = 0, qr_matched_faq = None,
           qr_all_matches = [],
           qr_generated_variants = (if gvf then Some variants else None),
           qr_processing_time_ms = py_round2 ((time_time w h4 - st) * 1000)\<rparr>, h4)"
  by (simp add: answer_question_try_def Let_def assms(1,2) v s g QuestionResponse_def)

lemma try_database:
  assumes "llm_router_invoke w h q = Inr cat" "\<not> py_contains ''general'' (py_lower cat)"
    and v: "(if gvf then generate_variants w q n 0.7 (h @ [RouterInvoke q])
             else ([], h @ [RouterInvoke q])) = (variants, h2)"
    and s: "search_with_metadata w q variants 5 h2 = (Inr (best # rest, embeddings), h3)"
    and range: "\<forall>m \<in> set (best # rest). 0 \<le> similarity m \<and> similarity m \<le> 1"
    and hi: "confidence_threshold self \<le> similarity best"
  shows "answer_question_try w self q gvf n st h =
     (Inr \<lparr>qr_answer = answer best, qr_source = ''database'', qr_confidence = similarity best,
           qr_matched_faq = Some (to_similar_match best),
           qr_all_matches = map to_similar_match (best # rest),
           qr_generated_variants = (if gvf then Some variants else None),
           qr_processing_time_ms = py_round2 ((time_time w h3 - st) * 1000)\<rparr>, h3)"
proof -
  have b: "build_similar_match best = Inr (to_similar_match best)"
    using range by (simp add: build_similar_match_ok)
  have ba: "build_all_matches (best # rest) = Inr (map to_similar_match (best # rest))"
    by (rule build_all_matches_ok[OF range])
  have r: "0 \<le> similarity best \<and> similarity best \<le> 1" using range by simp
  show ?thesis
    using hi r ba
    by (simp add: answer_question_try_def Let_def assms(1,2) v s b QuestionResponse_def)
qed

lemma try_llm:
  assumes "llm_router_invoke w h q = Inr cat" "\<not> py_contains ''general'' (py_lower cat)"
    and v: "(if gvf then generate_variants w q n 0.7 (h @ [RouterInvoke q])
             else ([], h @ [RouterInvoke q])) = (variants, h2)"
    and s: "search_with_metadata w q variants 5 h2 = (Inr (best # rest, embeddings), h3)"
    and range: "\<forall>m \<in> set (best # rest). 0 \<le> similarity m \<and> similarity m \<le> 1"
    and lo: "similarity best < confidence_threshold self"
    and g: "generate_llm_answer w q (best # rest) h3 = (a, h4)"
  shows "answer_question_try w self q gvf n st h =
     (Inr \<lparr>qr_answer = a, qr_source = ''llm'', qr_confidence = similarity best,
           qr_matched_faq = Some (to_similar_match best),
           qr_all_matches = map to_similar_match (best # rest),
           qr_generated_variants = (if gvf then Some variants else None),
           qr_processing_time_ms = py_round2 ((time_time w h4 - st) * 1000)\<rparr>, h4)"
proof -
  have b: "build_similar_match best = Inr (to_similar_match best)"
    using range by (simp add: build_similar_match_ok)
  have ba: "build_all_matches (best # rest) = Inr (map to_similar_match (best # rest))"
    by (rule build_all_matches_ok[OF range])
  have r: "0 \<le> similarity best \<and> similarity best \<le> 1" using range by simp
  show ?thesis
    using lo r ba
    by (simp add: answer_question_try_def Let_def assms(1,2) v s b g QuestionResponse_def)
qed

subsection \<open>The General short circuit\<close>

text \<open>Claim C3. When the classifier's answer contains \<^verbatim>\<open>general\<close>, case-insensitively,
  \<^verbatim>\<open>answer_question\<close> returns the fixed refusal with source \<^verbatim>\<open>llm\<close>, confidence 1, no
  matched FAQ, no matches and no generated variants, and the only external call it has
  made is the classifier's: no variant generation, no embedding, no database search.\<close>

theorem general_short_circuit:
  assumes "llm_router_invoke w h user_question = Inr question_category"
      and "py_contains ''general'' (py_lower question_category)"
  shows "answer_question w (QuestionAnsweringService_init app) user_question
           generate_variants_flag num_variants h =
     (Inr \<lparr>qr_answer = ''This is not really what I was trained for, therefore I cannot answer. Try again.'',
           qr_source = ''llm'', qr_confidence = 1, qr_matched_faq = None, qr_all_matches = [],
           qr_generated_variants = None,
           qr_processing_time_ms =
             py_round2 ((time_time w (h @ [RouterInvoke user_question]) - time_time w h) * 1000)\<rparr>,
      h @ [RouterInvoke user_question])"
  using assms
  by (simp add: answer_question_def answer_question_try_def QuestionResponse_def
      QuestionAnsweringService_init_def Let_def)

theorem general_short_circuit_witness:
  "py_contains ''general'' (py_lower ''General'') \<and>
   answer_question general_world (QuestionAnsweringService_init \<lparr>similarity_threshold = 0.75\<rparr>)
     ''What is the weather today?'' True 3 [] =
     (Inr \<lparr>qr_answer = ''This is not really what I was trained for, therefore I cannot answer. Try again.'',
           qr_source = ''llm'', qr_confidence = 1, qr_matched_faq = None, qr_all_matches = [],
           qr_generated_variants = None, qr_processing_time_ms = 1000\<rparr>,
      [RouterInvoke ''What is the weather today?''])"
proof -
  have g: "py_contains ''general'' (py_lower ''General'')"
    by code_simp
  have r: "llm_router_invoke general_world [] ''What is the weather today?'' = Inr ''General''"
    by (simp add: general_world_def)
  have t: "time_time general_world ([] @ [RouterInvoke ''What is the weather today?'']) -
           time_time general_world [] = 1"
    by (simp add: general_world_def example_world_def)
  from general_short_circuit[OF r g, of "\<lparr>similarity_threshold = 0.75\<rparr>" True 3] g
  show ?thesis unfolding t by (simp add: py_round2_1000)
qed

subsection \<open>A failing classifier\<close>

text \<open>Claim C9, as amended. When the classifier call raises, \<^verbatim>\<open>answer_question\<close> does not
  go on to variant generation, retrieval or the decision: the top-level handler returns
  the error response (source \<^verbatim>\<open>error\<close>, confidence 0, the fixed apology, the measured
  time), and the classifier call is the only external call made. No exception reaches
  the caller.\<close>

theorem classifier_failure_gives_error_response:
  assumes "llm_router_invoke w h user_question = Inl e"
  shows "answer_question w self user_question generate_variants_flag num_variants h =
     (Inr (error_response
             (py_round2 ((time_time w (h @ [RouterInvoke user_question]) - time_time w h) * 1000))),
      h @ [RouterInvoke user_question])"
  using assms
  by (simp add: answer_question_def answer_question_try_def QuestionResponse_def
      error_response_def error_answer_def Let_def)

theorem classifier_failure_gives_error_response_witness:
  "llm_router_invoke router_down_world [] ''How can I change my password?'' =
     Inl (ExternalError ''timeout'') \<and>
   answer_question router_down_world (QuestionAnsweringService_init \<lparr>similarity_threshold = 0.75\<rparr>)
     ''How can I change my password?'' True 3 [] =
     (Inr (error_response (py_round2
        ((time_time router_down_world ([] @ [RouterInvoke ''How can I change my password?'']) -
          time_time router_down_world []) * 1000))),
      [] @ [RouterInvoke ''How can I change my password?''])"
proof -
  have r: "llm_router_invoke router_down_world [] ''How can I change my password?'' =
     Inl (ExternalError ''timeout'')"
    by (simp add: router_down_world_def)
  from classifier_failure_gives_error_response[OF r] r show ?thesis by blast
qed

text \<open>Claim C9 as stated fails: in the world whose classifier times out, the request ends
  with the error response after the classifier call alone, while the same world with a
  classifier answering \<^verbatim>\<open>IT\<close> (not General) answers from the database.\<close>

theorem classifier_failure_aborts_workflow:
  "llm_router_invoke router_down_world [] ''How can I change my password?'' =
     Inl (ExternalError ''timeout'') \<and>
   answer_question router_down_world (QuestionAnsweringService_init \<lparr>similarity_threshold = 0.75\<rparr>)
     ''How can I change my password?'' True 3 [] =
     (Inr (error_response 1000), [RouterInvoke ''How can I change my password?'']) \<and>
   map_sum id qr_source
     (fst (answer_question example_world (QuestionAnsweringService_init \<lparr>similarity_threshold = 0.75\<rparr>)
        ''How can I change my password?'' True 3 [])) = Inr ''database''"
  by code_simp

subsection \<open>The top-level handler\<close>



subsection \<open>The confidence threshold\<close>

text \<open>Claim C2, as amended. With the threshold 0.75, a classification that is not General,
  and a retrieval that returns matches whose similarities all lie in [0, 1] (the range
  the response schema accepts): \<^verbatim>\<open>answer_question\<close> returns a response; when the list
  is empty its confidence is 0 and its source \<^verbatim>\<open>llm\<close>; otherwise its confidence is the
  similarity \<open>s\<close> of the first match, and its source is \<^verbatim>\<open>database\<close> with the stored
  answer of that match when \<open>s \<ge> 0.75\<close>, and \<^verbatim>\<open>llm\<close> when \<open>s < 0.75\<close>.\<close>

theorem threshold_routing:
  assumes thr: "confidence_threshold self = 0.75"
    and router: "llm_router_invoke w h q = Inr cat"
    and nongeneral: "\<not> py_contains ''general'' (py_lower cat)"
    and retrieved: "fst (retrieval_step w q gvf n h) = Inr (matches, embeddings)"
    and range: "\<forall>m \<in> set matches. 0 \<le> similarity m \<and> similarity m \<le> 1"
  shows "\<exists>r. fst (answer_question w self q gvf n h) = Inr r \<and>
     (case matches of
        [] \<Rightarrow> qr_confidence r = 0 \<and> qr_source r = ''llm''
      | best # rest \<Rightarrow>
          qr_confidence r = similarity best \<and>
          (if similarity best \<ge> 0.75
           then qr_source r = ''database'' \<and> qr_answer r = answer best
           else qr_source r = ''llm''))"
proof -
  obtain variants h2 h3 where
    v: "(if gvf then generate_variants w q n 0.7 (h @ [RouterInvoke q])
         else ([], h @ [RouterInvoke q])) = (variants, h2)"
    and s: "search_with_metadata w q variants 5 h2 = (Inr (matches, embeddings), h3)"
    using retrieved by (rule retrieval_step_obtain)
  obtain a h4 where g: "generate_llm_answer w q matches h3 = (a, h4)"
    by (cases "generate_llm_answer w q matches h3")
  show ?thesis
  proof (cases matches)
    case Nil
    from try_empty[OF router nongeneral v s[unfolded Nil] g[unfolded Nil]] Nil
    show ?thesis by (simp add: answer_question_cases)
  next
    case (Cons best rest)
    show ?thesis
    proof (cases "similarity best \<ge> 0.75")
      case True
      then have hi: "confidence_threshold self \<le> similarity best" by (simp add: thr)
      from try_database[OF router nongeneral v s[unfolded Cons] range[unfolded Cons] hi] Cons True
      show ?thesis by (simp add: answer_question_cases)
    next
      case False
      then have lo: "similarity best < confidence_threshold self" by (simp add: thr)
      from try_llm[OF router nongeneral v s[unfolded Cons] range[unfolded Cons] lo g[unfolded Cons]]
        Cons False
      show ?thesis by (simp add: answer_question_cases)
    qed
  qed
qed

theorem threshold_routing_witness:
  "map_sum id (\<lambda>r. (qr_source r, qr_confidence r, qr_answer r))
     (fst (answer_question (boundary_world 0.75)
        (QuestionAnsweringService_init \<lparr>similarity_threshold = 0.75\<rparr>)
        ''How can I change my password?'' False 3 [])) =
     Inr (''database'', 0.75, ''Go to Settings > Security.'') \<and>
   map_sum id (\<lambda>r. (qr_source r, qr_confidence r))
     (fst (answer_question (boundary_world 0.7499)
        (QuestionAnsweringService_init \<lparr>similarity_threshold = 0.75\<rparr>)
        ''How can I change my password?'' False 3 [])) =
     Inr (''llm'', 0.7499)"
proof -
  let ?svc = "QuestionAnsweringService_init \<lparr>similarity_threshold = 0.75\<rparr>"
  let ?q = "''How can I change my password?''"
  let ?m = "\<lambda>s. \<lparr>faq_id = 1, question = ''How do I reset my password?'',
                  answer = ''Go to Settings > Security.'', similarity = s, source = ''faq'',
                  matched_text = None\<rparr>"
  have thr: "confidence_threshold ?svc = 0.75"
    by (simp add: QuestionAnsweringService_init_def)
  have router: "llm_router_invoke (boundary_world s) [] ?q = Inr ''IT''" for s
    by (simp add: boundary_world_def example_world_def)
  have nongeneral: "\<not> py_contains ''general'' (py_lower ''IT'')"
    by code_simp
  have r1: "fst (retrieval_step (boundary_world 0.75) ?q False 3 []) = Inr ([?m 0.75], [[1, 0]])"
    by code_simp
  have r2: "fst (retrieval_step (boundary_world 0.7499) ?q False 3 []) = Inr ([?m 0.7499], [[1, 0]])"
    by code_simp
  from threshold_routing[OF thr router nongeneral r1]
  obtain ra where a: "fst (answer_question (boundary_world 0.75) ?svc ?q False 3 []) = Inr ra"
    "qr_confidence ra = 0.75" "qr_source ra = ''database''"
    "qr_answer ra = ''Go to Settings > Security.''"
    by auto
  from threshold_routing[OF thr router nongeneral r2]
  obtain rb where b: "fst (answer_question (boundary_world 0.7499) ?svc ?q False 3 []) = Inr rb"
    "qr_confidence rb = 0.7499" "qr_source rb = ''llm''"
    by auto
  from a b show ?thesis by simp
qed

text \<open>Claim C2 as stated fails for a similarity outside [0, 1]: retrieval returns one
  match of similarity \<open>-0.1\<close>, which is below 0.75, and the response has source
  \<^verbatim>\<open>error\<close> and confidence 0, since \<^verbatim>\<open>SimilarMatch\<close> rejects the similarity.\<close>

theorem negative_similarity_gives_error:
  "fst (retrieval_step negative_world ''How do I brew coffee?'' False 3 []) =
     Inr ([\<lparr>faq_id = 3, question = ''How do I print a page?'', answer = ''Use the print dialog.'',
            similarity = - 1/10, source = ''faq'', matched_text = None\<rparr>], [[1, 0]]) \<and>
   fst (answer_question negative_world (QuestionAnsweringService_init \<lparr>similarity_threshold = 0.75\<rparr>)
          ''How do I brew coffee?'' False 3 []) = Inr (error_response 5000)"
  by code_simp

subsection \<open>A failing answer synthesis\<close>

text \<open>Claim C10, as amended. After a classification that is not General and a retrieval
  that returned matches whose similarities all lie in [0, 1], when the decision goes
  to synthesis (no match, or a best similarity below the threshold) and the synthesis
  call raises, \<^verbatim>\<open>answer_question\<close> returns a response with source \<^verbatim>\<open>llm\<close>, the fixed
  fallback apology of \<^verbatim>\<open>_generate_llm_answer\<close> as answer, the best match's similarity
  as confidence (0 without a match), and all the matches.\<close>

theorem synthesis_failure_keeps_llm_source:
  assumes router: "llm_router_invoke w h q = Inr cat"
    and nongeneral: "\<not> py_contains ''general'' (py_lower cat)"
    and retrieved: "retrieval_step w q gvf n h = (Inr (matches, embeddings), h3)"
    and range: "\<forall>m \<in> set matches. 0 \<le> similarity m \<and> similarity m \<le> 1"
    and below: "case matches of [] \<Rightarrow> True | best # rest \<Rightarrow> similarity best < confidence_threshold self"
    and raised: "fst (generate_llm_answer_try w q matches h3) = Inl e"
  shows "\<exists>r. fst (answer_question w self q gvf n h) = Inr r \<and>
     qr_source r = ''llm'' \<and>
     qr_answer r = ''I apologize, but I'm unable to generate an answer at this time. Please try rephrasing your question or contact support.'' \<and>
     qr_confidence r = (case matches of [] \<Rightarrow> 0 | best # rest \<Rightarrow> similarity best) \<and>
     qr_all_matches r = map to_similar_match matches"
proof -
  from retrieved have r1: "fst (retrieval_step w q gvf n h) = Inr (matches, embeddings)" by simp
  obtain variants h2 h3' where
    v: "(if gvf then generate_variants w q n 0.7 (h @ [RouterInvoke q])
         else ([], h @ [RouterInvoke q])) = (variants, h2)"
    and s': "search_with_metadata w q variants 5 h2 = (Inr (matches, embeddings), h3')"
    and r': "retrieval_step w q gvf n h = (Inr (matches, embeddings), h3')"
    using r1 by (rule retrieval_step_obtain)
  from retrieved r' have "h3' = h3" by simp
  with s' have s: "search_with_metadata w q variants 5 h2 = (Inr (matches, embeddings), h3)" by simp
  obtain h4 where t: "generate_llm_answer_try w q matches h3 = (Inl e, h4)"
    using raised by (cases "generate_llm_answer_try w q matches h3") auto
  have g: "generate_llm_answer w q matches h3 = (llm_fallback_answer, h4)"
    by (simp add: generate_llm_answer_def t)
  show ?thesis
  proof (cases matches)
    case Nil
    from try_empty[OF router nongeneral v s[unfolded Nil] g[unfolded Nil]] Nil
    show ?thesis by (simp add: answer_question_cases llm_fallback_answer_def)
  next
    case (Cons best rest)
    with below have lo: "similarity best < confidence_threshold self" by simp
    from try_llm[OF router nongeneral v s[unfolded Cons] range[unfolded Cons] lo g[unfolded Cons]]
      Cons
    show ?thesis by (simp add: answer_question_cases llm_fallback_answer_def)
  qed
qed

theorem synthesis_failure_keeps_llm_source_witness:
  "map_sum id (\<lambda>r. (qr_source r, qr_confidence r, map sm_faq_id (qr_all_matches r), qr_answer r))
     (fst (answer_question llm_down_world
        (QuestionAnsweringService_init \<lparr>similarity_threshold = 0.75\<rparr>)
        ''How can I change my password?'' False 3 [])) =
     Inr (''llm'', 6/10, [1],
          ''I apologize, but I'm unable to generate an answer at this time. Please try rephrasing your question or contact support.'')"
proof -
  let ?svc = "QuestionAnsweringService_init \<lparr>similarity_threshold = 0.75\<rparr>"
  let ?q = "''How can I change my password?''"
  let ?m = "\<lparr>faq_id = 1, question = ''How do I reset my password?'',
             answer = ''Go to Settings > Security.'', similarity = 6/10, source = ''faq'',
             matched_text = None\<rparr>"
  let ?h3 = "[RouterInvoke ?q, EmbeddingsCreate ?q, QueryFaqs [1, 0] 5, QueryVariants [1, 0] 5]"
  have router: "llm_router_invoke llm_down_world [] ?q = Inr ''IT''"
    by (simp add: llm_down_world_def boundary_world_def example_world_def)
  have nongeneral: "\<not> py_contains ''general'' (py_lower ''IT'')"
    by code_simp
  have retrieved: "retrieval_step llm_down_world ?q False 3 [] = (Inr ([?m], [[1, 0]]), ?h3)"
    by code_simp
  have range: "\<forall>m \<in> set [?m]. 0 \<le> similarity m \<and> similarity m \<le> 1" by simp
  have below: "case [?m] of [] \<Rightarrow> True | best # rest \<Rightarrow> similarity best < confidence_threshold ?svc"
    by (simp add: QuestionAnsweringService_init_def)
  have raised: "fst (generate_llm_answer_try llm_down_world ?q [?m] ?h3) = Inl (ExternalError ''timeout'')"
    by code_simp
  from synthesis_failure_keeps_llm_source[OF router nongeneral retrieved range below raised]
  show ?thesis by (auto simp: to_similar_match_def)
qed

text \<open>Claim C10 as stated fails when a match has a similarity outside [0, 1]: retrieval
  succeeds with one match of similarity \<open>-0.1\<close>, the synthesis call raises and is
  caught, and the response still has source \<^verbatim>\<open>error\<close>, since its assembly fails
  validation.\<close>

theorem synthesis_failure_with_negative_similarity:
  "retrieval_step negative_llm_down_world ''How do I brew coffee?'' False 3 [] =
     (Inr ([\<lparr>faq_id = 3, question = ''How do I print a page?'', answer = ''Use the print dialog.'',
             similarity = - 1/10, source = ''faq'', matched_text = None\<rparr>], [[1, 0]]),
      [RouterInvoke ''How do I brew coffee?'', EmbeddingsCreate ''How do I brew coffee?'',
       QueryFaqs [1, 0] 5, QueryVariants [1, 0] 5]) \<and>
   fst (generate_llm_answer_try negative_llm_down_world ''How do I brew coffee?''
          [\<lparr>faq_id = 3, question = ''How do I print a page?'', answer = ''Use the print dialog.'',
            similarity = - 1/10, source = ''faq'', matched_text = None\<rparr>]
          [RouterInvoke ''How do I brew coffee?'', EmbeddingsCreate ''How do I brew coffee?'',
           QueryFaqs [1, 0] 5, QueryVariants [1, 0] 5]) = Inl (ExternalError ''timeout'') \<and>
   map_sum id qr_source
     (fst (answer_question negative_llm_down_world
        (QuestionAnsweringService_init \<lparr>similarity_threshold = 0.75\<rparr>)
        ''How do I brew coffee?'' False 3 [])) = Inr ''error''"
  by code_simp

section \<open>Variant generation\<close>

subsection \<open>Count bound and case-insensitive distinctness\<close>

lemma clean_loop_length:
  "int (length cleaned) < expected_count \<Longrightarrow>
   int (length (clean_loop variants expected_count seen cleaned)) \<le> expected_count"
  by (induction variants expected_count seen cleaned rule: clean_loop.induct)
     (auto simp: Let_def)

lemma clean_loop_distinct:
  "distinct (map py_lower cleaned) \<Longrightarrow> seen = set (map py_lower cleaned) \<Longrightarrow>
   distinct (map py_lower (clean_loop variants expected_count seen cleaned))"
  by (induction variants expected_count seen cleaned rule: clean_loop.induct)
     (auto simp: Let_def)

lemma clean_variants_length:
  "1 \<le> expected_count \<Longrightarrow> int (length (clean_variants variants expected_count)) \<le> expected_count"
  unfolding clean_variants_def by (rule clean_loop_length) simp

lemma clean_variants_distinct: "distinct (map py_lower (clean_variants variants expected_count))"
  unfolding clean_variants_def by (rule clean_loop_distinct) simp_all

lemma parse_response_result:
  "parse_response w response expected_count = Inr variants \<Longrightarrow>
   \<exists>raw. variants = clean_variants raw expected_count"
  by (auto simp: parse_response_def split: sum.splits if_splits)

lemma generate_variants_result:
  "fst (generate_variants w text0 n temperature h) = [] \<or>
   (\<exists>raw. fst (generate_variants w text0 n temperature h) = clean_variants raw (max 1 (min n 10)))"
  using parse_response_result
  by (auto simp: generate_variants_def Let_def split: sum.splits) 

lemma clamp_eq: "max 1 (min n 10) = min (max n 1) (10::int)"
  by auto

text \<open>Claim C5, as amended. For every world, text, \<open>n\<close> and temperature,
  \<^verbatim>\<open>generate_variants\<close> returns a list of length at most \<open>min (max n 1) 10\<close> in which no
  two entries are equal case-insensitively; an out-of-range \<open>n\<close> (or temperature) is
  clamped: the function returns a list in every case, and the one external call it may
  make carries the clamped values.\<close>

theorem generate_variants_bounded_distinct:
  "length (fst (generate_variants w text0 n temperature h)) \<le> nat (min (max n 1) 10) \<and>
   distinct (map py_lower (fst (generate_variants w text0 n temperature h))) \<and>
   (snd (generate_variants w text0 n temperature h) = h \<or>
    snd (generate_variants w text0 n temperature h) =
      h @ [VariantChainInvoke text0 (min (max n 1) 10) (max 0 (min temperature 1))])"
proof (intro conjI)
  from generate_variants_result[of w text0 n temperature h]
  show "length (fst (generate_variants w text0 n temperature h)) \<le> nat (min (max n 1) 10)"
  proof
    assume "fst (generate_variants w text0 n temperature h) = []"
    then show ?thesis by simp
  next
    assume "\<exists>raw. fst (generate_variants w text0 n temperature h) =
              clean_variants raw (max 1 (min n 10))"
    then obtain raw where r: "fst (generate_variants w text0 n temperature h) =
              clean_variants raw (max 1 (min n 10))" by blast
    have "int (length (clean_variants raw (max 1 (min n 10)))) \<le> max 1 (min n 10)"
      by (rule clean_variants_length) simp
    then show ?thesis unfolding r clamp_eq by linarith
  qed
  from generate_variants_result[of w text0 n temperature h]
  show "distinct (map py_lower (fst (generate_variants w text0 n temperature h)))"
    by (auto simp: clean_variants_distinct)
  show "snd (generate_variants w text0 n temperature h) = h \<or>
    snd (generate_variants w text0 n temperature h) =
      h @ [VariantChainInvoke text0 (min (max n 1) 10) (max 0 (min temperature 1))]"
    by (auto simp: generate_variants_def Let_def clamp_eq split: sum.splits)
qed

theorem generate_variants_bounded_distinct_witness:
  "length (fst (generate_variants example_world ''How do I reset?'' 50 7 [])) \<le> 10 \<and>
   snd (generate_variants example_world ''How do I reset?'' 50 7 []) =
     [VariantChainInvoke ''How do I reset?'' 10 1]"
proof -
  have "snd (generate_variants example_world ''How do I reset?'' 50 7 []) =
     [VariantChainInvoke ''How do I reset?'' 10 1]"
    by code_simp
  with generate_variants_bounded_distinct
         [where w = example_world and ?text0.0 = "''How do I reset?''" and n = 50
            and temperature = 7 and h = "[]"]
  show ?thesis by simp
qed

text \<open>Claim C5 as stated compares the entries after whitespace collapsing, trimming and
  quote stripping, and fails: cleaning trims before it strips the quotes, so a
  paraphrase wrapped in quotes with a space before the closing quote keeps that space.
  The two entries returned here differ by the trailing space alone and are equal once
  cleaned again.\<close>

theorem quoted_variants_equal_after_cleaning:
  "fst (generate_variants quoted_world ''How do I reset?'' 3 0.7 []) =
     [''How do I reset? '', ''How do I reset?''] \<and>
   py_lower (normalize_variant ''How do I reset? '') =
   py_lower (normalize_variant ''How do I reset?'')"
  by code_simp

subsection \<open>Parsing the model response\<close>

text \<open>Claim C8 fails on the code. When the response is a valid JSON array that is not
  wrapped in an object, \<^verbatim>\<open>json.loads\<close> succeeds, \<^verbatim>\<open>parsed["paraphrases"]\<close> raises
  \<^verbatim>\<open>TypeError\<close>, which \<^verbatim>\<open>except json.JSONDecodeError\<close> does not catch, and
  \<^verbatim>\<open>generate_variants\<close> returns the empty list instead of the variants of the array.\<close>

theorem direct_array_yields_no_variants:
  assumes "text0 \<noteq> []" and "py_strip text0 \<noteq> []"
    and "variant_chain_invoke w h text0 (max 1 (min n 10)) (max 0 (min temperature 1)) =
           Inr response"
    and "json_loads w response = Inr (JArr xs)"
  shows "parse_response w response (max 1 (min n 10)) = Inl TypeError \<and>
         fst (generate_variants w text0 n temperature h) = []"
  using assms
  by (simp add: generate_variants_def parse_response_def parse_response_try_def py_getitem_def
      Let_def)

theorem direct_array_yields_no_variants_witness:
  \<open>json_loads array_world ''["How can I change my password?", "How to reset a password?"]'' =
     Inr (JArr [JStr ''How can I change my password?'', JStr ''How to reset a password?'']) \<and>
   fst (generate_variants array_world ''How do I reset my password?'' 3 0.7 []) = []\<close>
proof -
  let ?r = \<open>''["How can I change my password?", "How to reset a password?"]''\<close>
  have a: "''How do I reset my password?'' \<noteq> []" by simp
  have b: "py_strip ''How do I reset my password?'' \<noteq> []" by code_simp
  have c: "variant_chain_invoke array_world [] ''How do I reset my password?''
             (max 1 (min 3 10)) (max 0 (min 0.7 1)) = Inr ?r"
    by (simp add: array_world_def)
  have d: "json_loads array_world ?r =
     Inr (JArr [JStr ''How can I change my password?'', JStr ''How to reset a password?''])"
    by code_simp
  from direct_array_yields_no_variants[OF a b c d] d show ?thesis by simp
qed

text \<open>The same array is accepted once prose precedes it (the response is then not valid
  JSON and the bracket salvage parses the array), and an object wrapping the array
  under \<^verbatim>\<open>paraphrases\<close> is accepted.\<close>

lemma embedded_array_is_salvaged:
  \<open>parse_response array_world
     ''Sure: ["How can I change my password?", "How to reset a password?"]'' 3 =
     Inr [''How can I change my password?'', ''How to reset a password?'']\<close>
  by code_simp

lemma wrapped_array_is_parsed:
  \<open>parse_response array_world ''{"paraphrases": ["How can I change my password?"]}'' 3 =
     Inr [''How can I change my password?'']\<close>
  by code_simp

end
